theory Spec2Isabelle
  imports Complex_Main
begin

section \<open>Renewal dialog of \<^verbatim>\<open>ExpiredMemberships.tsx\<close>: data model\<close>

text \<open>
  The page component keeps its form in React state cells. The model collects the cells
  the renewal dialog reads or writes into one record and turns every handler and every
  effect into a function from state to state. Identifiers (\<^verbatim>\<open>number\<close> in the source) are
  integers; an optional or nullable field is an \<open>option\<close>, with \<open>None\<close> standing for both
  \<^verbatim>\<open>null\<close> and \<^verbatim>\<open>undefined\<close>, which the code never tells apart.
\<close>

record Assignment =
  seatId :: int
  shiftId :: int
  a_seatNumber :: string
  shiftTitle :: string

record Student =
  student_id :: int
  student_name :: string
  assignments :: "Assignment list option"


record Schedule =
  sched_id :: int
  title :: string
  sched_fee :: int

record ShiftOption =
  value' :: int
  label :: string
  fee :: int
  isDisabled :: "bool option"


text \<open>The entries of the branch, seat and locker selects: \<^verbatim>\<open>{ value, label }\<close>.\<close>

record SelectOption =
  opt_value :: "int option"
  opt_label :: string

type_synonym Date = int

record RenewalState =
  selectedStudent :: "Student option"
  renewDialogOpen :: bool
  nameInput :: string
  registrationNumberInput :: string
  fatherNameInput :: string
  aadharNumberInput :: string
  addressInput :: string
  emailInput :: string
  phoneInput :: string
  startDate :: "Date option"
  endDate :: "Date option"
  allShifts :: "ShiftOption list"
  shiftOptions :: "ShiftOption list"
  seatOptions :: "SelectOption list"
  lockerOptions :: "SelectOption list"
  selectedShifts :: "ShiftOption list"
  selectedSeat :: "SelectOption option"
  selectedBranch :: "SelectOption option"
  selectedLocker :: "SelectOption option"
  totalFee :: string
  cash :: string
  online :: string
  securityMoney :: string
  remark :: string
  discount :: string
  lockerFee :: string
  loadingSeats :: bool
  loadingShifts :: bool
  loadingLockers :: bool

section \<open>JavaScript values\<close>

text \<open>
  Truthiness of an optional identifier: \<^verbatim>\<open>null\<close>, \<^verbatim>\<open>undefined\<close> and \<^verbatim>\<open>0\<close> are falsy.
  The source tests identifiers this way everywhere (\<^verbatim>\<open>!seat.studentId\<close>,
  \<^verbatim>\<open>selectedBranch?.value\<close>, \<^verbatim>\<open>!selectedSeat?.value\<close>).
\<close>

fun truthyId :: "int option \<Rightarrow> bool" where
  "truthyId None = False"
| "truthyId (Some n) = (n \<noteq> 0)"

text \<open>\<^verbatim>\<open>selectedX?.value\<close>: the value of the option when there is one.\<close>

fun optValue :: "SelectOption option \<Rightarrow> int option" where
  "optValue None = None"
| "optValue (Some opt) = opt_value opt"

text \<open>
  The numbers the fee arithmetic works on. \<^verbatim>\<open>parseFloat\<close> yields \<^verbatim>\<open>NaN\<close>, a finite
  number or an infinity; finite numbers are exact rationals here, so the rounding of
  IEEE doubles (and the sign of zero) is outside the model.
\<close>

datatype jsnum = NaN | Num rat | Infty bool


fun jsneg :: "jsnum \<Rightarrow> jsnum" where
  "jsneg NaN = NaN"
| "jsneg (Num a) = Num (- a)"
| "jsneg (Infty s) = Infty (\<not> s)"


fun truthyNum :: "jsnum \<Rightarrow> bool" where
  "truthyNum NaN = False"
| "truthyNum (Num a) = (a \<noteq> 0)"
| "truthyNum (Infty s) = True"

text \<open>\<^verbatim>\<open>x || 0\<close> and \<^verbatim>\<open>x || undefined\<close> on a number.\<close>

definition orZero :: "jsnum \<Rightarrow> jsnum" where
  "orZero x = (if truthyNum x then x else Num 0)"

definition orUndefined :: "jsnum \<Rightarrow> jsnum option" where
  "orUndefined x = (if truthyNum x then Some x else None)"

subsection \<open>Strings\<close>

text \<open>
  Strings are lists of 8-bit characters. The white space of \<^verbatim>\<open>trim\<close> and of
  \<^verbatim>\<open>parseFloat\<close> is the JavaScript white space and line terminators that fit in a
  byte: TAB, LF, VT, FF, CR, SP and NBSP.
\<close>

definition isWhiteSpace :: "char \<Rightarrow> bool" where
  "isWhiteSpace c = ((of_char c :: nat) \<in> {9, 10, 11, 12, 13, 32, 160})"

definition trimStart :: "string \<Rightarrow> string" where
  "trimStart s = dropWhile isWhiteSpace s"

definition trim :: "string \<Rightarrow> string" where
  "trim s = rev (dropWhile isWhiteSpace (rev (dropWhile isWhiteSpace s)))"

definition isDigit :: "char \<Rightarrow> bool" where
  "isDigit c = (48 \<le> (of_char c :: nat) \<and> (of_char c :: nat) \<le> 57)"

definition digitVal :: "char \<Rightarrow> nat" where
  "digitVal c = (of_char c :: nat) - 48"

text \<open>The value of a run of decimal digits, most significant first.\<close>

definition digitsVal :: "string \<Rightarrow> nat" where
  "digitsVal ds = foldl (\<lambda>acc c. 10 * acc + digitVal c) 0 ds"

text \<open>
  \<^verbatim>\<open>ExponentPart\<close> of a \<^verbatim>\<open>StrDecimalLiteral\<close>: \<^verbatim>\<open>e\<close> or \<^verbatim>\<open>E\<close>, an optional sign and at
  least one digit. Where the text after the mantissa is no exponent part, the longest
  literal ends before it and the exponent is 0.
\<close>

definition exponentPart :: "string \<Rightarrow> int" where
  "exponentPart r =
     (case r of
        [] \<Rightarrow> 0
      | e # r' \<Rightarrow>
          if e = CHR ''e'' \<or> e = CHR ''E'' then
            (case r' of
               [] \<Rightarrow> 0
             | sg # ds \<Rightarrow>
                 if sg = CHR ''-'' then
                   (if takeWhile isDigit ds = [] then 0
                    else - int (digitsVal (takeWhile isDigit ds)))
                 else if sg = CHR ''+'' then int (digitsVal (takeWhile isDigit ds))
                 else int (digitsVal (takeWhile isDigit r')))
          else 0)"

definition scale10 :: "rat \<Rightarrow> int \<Rightarrow> rat" where
  "scale10 m e = (if 0 \<le> e then m * 10 ^ nat e else m / 10 ^ nat (- e))"

text \<open>
  \<^verbatim>\<open>StrUnsignedDecimalLiteral\<close>: \<^verbatim>\<open>Infinity\<close>, or digits with an optional fraction, or
  a fraction that starts with the point, each with an optional exponent part.
\<close>

definition unsignedLiteral :: "string \<Rightarrow> jsnum" where
  "unsignedLiteral u =
     (if take 8 u = ''Infinity'' then Infty False
      else
        let ip = takeWhile isDigit u;
            r1 = dropWhile isDigit u;
            hasPoint = (case r1 of [] \<Rightarrow> False | c # _ \<Rightarrow> c = CHR ''.'');
            fp = (if hasPoint then takeWhile isDigit (tl r1) else []);
            r2 = (if hasPoint then dropWhile isDigit (tl r1) else r1)
        in
          if ip = [] \<and> fp = [] then NaN
          else
            Num (scale10
                   (of_nat (digitsVal ip) + of_nat (digitsVal fp) / 10 ^ length fp)
                   (exponentPart r2)))"

text \<open>
  \<^verbatim>\<open>parseFloat\<close>: leading white space is skipped, then the longest prefix that is a
  \<^verbatim>\<open>StrDecimalLiteral\<close> is read; without such a prefix the result is \<^verbatim>\<open>NaN\<close>.
\<close>

definition parseFloat :: "string \<Rightarrow> jsnum" where
  "parseFloat s =
     (case trimStart s of
        [] \<Rightarrow> NaN
      | c # r \<Rightarrow>
          if c = CHR ''-'' then jsneg (unsignedLiteral r)
          else if c = CHR ''+'' then unsignedLiteral r
          else unsignedLiteral (c # r))"

section \<open>Fee reconciliation\<close>






text \<open>
  \<^verbatim>\<open>Number.prototype.toString\<close> on a fee. Fees are modelled as integers, for which
  the result is the decimal numeral with a leading minus sign for negative values
  (below \<open>10^21\<close> in absolute value, where JavaScript switches to exponent notation).
\<close>

fun natToString :: "nat \<Rightarrow> string" where
  "natToString n =
     (if n < 10 then [char_of (48 + n)]
      else natToString (n div 10) @ [char_of (48 + n mod 10)])"

declare natToString.simps [simp del]

definition numberToString :: "int \<Rightarrow> string" where
  "numberToString n =
     (if n < 0 then CHR ''-'' # natToString (nat (- n)) else natToString (nat n))"

text \<open>
  The effect on \<^verbatim>\<open>[selectedShifts, allShifts]\<close>: with exactly one chosen shift the fee
  is looked up in the catalog by the chosen option's \<^verbatim>\<open>value\<close>
  (\<^verbatim>\<open>allShifts.find(...)\<close>, 0 when nothing is found); otherwise the fee becomes \<^verbatim>\<open>'0'\<close>.
\<close>

definition feeEffect :: "RenewalState \<Rightarrow> RenewalState" where
  "feeEffect st =
     (case selectedShifts st of
        [only] \<Rightarrow>
          (let selectedShiftDetail = find (\<lambda>shift. value' shift = value' only) (allShifts st);
               shiftFee = (case selectedShiftDetail of Some d \<Rightarrow> fee d | None \<Rightarrow> 0)
           in st\<lparr>totalFee := numberToString shiftFee\<rparr>)
      | _ \<Rightarrow> st\<lparr>totalFee := ''0''\<rparr>)"

definition isFeeReadOnly :: "RenewalState \<Rightarrow> bool" where
  "isFeeReadOnly st = (length (selectedShifts st) = 1)"

section \<open>Availability of seats and lockers for a branch\<close>








section \<open>Shift eligibility for a seat\<close>

text \<open>\<^verbatim>\<open>label.split(' - ')[0]\<close>: the text before the first occurrence of the separator.\<close>

fun splitHead :: "string \<Rightarrow> string \<Rightarrow> string" where
  "splitHead sep [] = []"
| "splitHead sep (c # cs) =
     (if take (length sep) (c # cs) = sep then [] else c # splitHead sep cs)"

text \<open>\<^verbatim>\<open>selectedStudent?.assignments?.map(a => a.shiftId) ?? []\<close>\<close>

definition studentCurrentShiftIds :: "RenewalState \<Rightarrow> int list" where
  "studentCurrentShiftIds st =
     (case selectedStudent st of
        None \<Rightarrow> []
      | Some student \<Rightarrow>
          (case assignments student of None \<Rightarrow> [] | Some as \<Rightarrow> map shiftId as))"

text \<open>
  The set \<^verbatim>\<open>availableShiftIds\<close> after the \<^verbatim>\<open>forEach\<close>: the ids of the fetched free
  shifts, then the ids of the student's current assignments. Membership is all the
  source asks of it (\<^verbatim>\<open>has\<close>), so a list holds it.
\<close>

definition availableShiftIds :: "RenewalState \<Rightarrow> Schedule list \<Rightarrow> int list" where
  "availableShiftIds st availableShifts =
     map sched_id availableShifts @ studentCurrentShiftIds st"

definition markShift :: "int list \<Rightarrow> ShiftOption \<Rightarrow> ShiftOption" where
  "markShift ids shift =
     shift\<lparr>label :=
             splitHead '' - '' (label shift) @ '' '' @
               (if value' shift \<in> set ids then ''(Available)'' else ''(Assigned)''),
           isDisabled := Some (value' shift \<notin> set ids)\<rparr>"

text \<open>
  The body of the effect on \<^verbatim>\<open>[selectedSeat, allShifts, selectedStudent, renewDialogOpen]\<close>.
  The argument is the outcome of \<^verbatim>\<open>api.getAvailableShifts\<close>: \<open>None\<close> when the request
  fails. Without a seat no request is made.
\<close>

definition fetchAvailableShiftsForSeat ::
  "Schedule list option \<Rightarrow> RenewalState \<Rightarrow> RenewalState" where
  "fetchAvailableShiftsForSeat resp st =
     (if \<not> truthyId (optValue (selectedSeat st)) then
        st\<lparr>shiftOptions := map (\<lambda>s. s\<lparr>isDisabled := Some False\<rparr>) (allShifts st)\<rparr>
      else
        (case resp of
           Some availableShifts \<Rightarrow>
             (let ids = availableShiftIds st availableShifts
              in st\<lparr>shiftOptions := map (markShift ids) (allShifts st),
                    selectedShifts := filter (\<lambda>s. value' s \<in> set ids) (selectedShifts st),
                    loadingShifts := False\<rparr>)
         | None \<Rightarrow> st\<lparr>loadingShifts := False\<rparr>))"

definition seatEffect :: "Schedule list option \<Rightarrow> RenewalState \<Rightarrow> RenewalState" where
  "seatEffect resp st =
     (if renewDialogOpen st then fetchAvailableShiftsForSeat resp st else st)"

section \<open>Selection transitions\<close>



text \<open>
  The seat select:
  \<^verbatim>\<open>onChange={(option) => { setSelectedSeat(option); setSelectedShifts([]); }}\<close>.
  The render that follows runs the seat effect and the fee effect; when the request of
  the seat effect settles and writes \<^verbatim>\<open>selectedShifts\<close>, the fee effect runs once more.
\<close>

definition seatOnChange :: "SelectOption option \<Rightarrow> RenewalState \<Rightarrow> RenewalState" where
  "seatOnChange option st = st\<lparr>selectedSeat := option, selectedShifts := []\<rparr>"

definition setSeat ::
  "SelectOption option \<Rightarrow> Schedule list option \<Rightarrow> RenewalState \<Rightarrow> RenewalState" where
  "setSeat option resp st = feeEffect (seatEffect resp (feeEffect (seatOnChange option st)))"

text \<open>\<^verbatim>\<open>handleShiftChange\<close> (\<^verbatim>\<open>options || []\<close>) followed by the fee effect.\<close>

definition handleShiftChange :: "ShiftOption list option \<Rightarrow> RenewalState \<Rightarrow> RenewalState" where
  "handleShiftChange options st =
     st\<lparr>selectedShifts := (case options of None \<Rightarrow> [] | Some newSelectedShifts \<Rightarrow> newSelectedShifts)\<rparr>"

definition setShifts :: "ShiftOption list option \<Rightarrow> RenewalState \<Rightarrow> RenewalState" where
  "setShifts options st = feeEffect (handleShiftChange options st)"

definition handleLockerChange :: "SelectOption option \<Rightarrow> RenewalState \<Rightarrow> RenewalState" where
  "handleLockerChange option st =
     (case option of
        None \<Rightarrow> st\<lparr>selectedLocker := None, lockerFee := ''0''\<rparr>
      | Some _ \<Rightarrow> st\<lparr>selectedLocker := option\<rparr>)"

section \<open>Submission\<close>

text \<open>
  The object passed to \<^verbatim>\<open>api.renewStudent\<close>. An optional field that is
  \<^verbatim>\<open>undefined\<close> is \<open>None\<close>. The two dates are passed on as they are: their formatting
  belongs to the date library.
\<close>

record RenewPayload =
  p_name :: string
  p_registrationNumber :: string
  p_fatherName :: string
  p_aadharNumber :: string
  p_address :: string
  p_membershipStart :: Date
  p_membershipEnd :: Date
  p_email :: string
  p_phone :: string
  p_branchId :: "int option"
  p_shiftIds :: "int list"
  p_seatId :: "int option"
  p_lockerId :: "int option"
  p_lockerFee :: jsnum
  p_discount :: "jsnum option"
  p_totalFee :: jsnum
  p_cash :: jsnum
  p_online :: jsnum
  p_securityMoney :: jsnum
  p_remark :: "string option"

definition renewPayload :: "Date \<Rightarrow> Date \<Rightarrow> RenewalState \<Rightarrow> RenewPayload" where
  "renewPayload start end' st =
     \<lparr>p_name = nameInput st,
      p_registrationNumber = registrationNumberInput st,
      p_fatherName = fatherNameInput st,
      p_aadharNumber = aadharNumberInput st,
      p_address = addressInput st,
      p_membershipStart = start,
      p_membershipEnd = end',
      p_email = emailInput st,
      p_phone = phoneInput st,
      p_branchId = optValue (selectedBranch st),
      p_shiftIds = map value' (selectedShifts st),
      p_seatId = optValue (selectedSeat st),
      p_lockerId = optValue (selectedLocker st),
      p_lockerFee = orZero (parseFloat (lockerFee st)),
      p_discount = orUndefined (parseFloat (discount st)),
      p_totalFee = parseFloat (totalFee st),
      p_cash = orZero (parseFloat (cash st)),
      p_online = orZero (parseFloat (online st)),
      p_securityMoney = orZero (parseFloat (securityMoney st)),
      p_remark = (if trim (remark st) = [] then None else Some (trim (remark st)))\<rparr>"

datatype Toast = ToastError string | ToastSuccess string

datatype ApiCall = RenewStudent int RenewPayload | GetExpiredMemberships

text \<open>What a request comes back with: success, or an error with an optional message.\<close>

datatype Reply = Resolved | Rejected "string option"

record SubmitResult =
  apiCalls :: "ApiCall list"
  toasts :: "Toast list"
  formState :: RenewalState

definition requiredMessage :: string where
  "requiredMessage = ''Please fill all required fields. At least one shift must be selected.''"

definition failureMessage :: "string option \<Rightarrow> string" where
  "failureMessage m = (case m of Some msg \<Rightarrow> msg | None \<Rightarrow> ''Failed to renew membership'')"

text \<open>The guard at the head of \<^verbatim>\<open>handleRenewSubmit\<close>.\<close>

definition missingRequired :: "RenewalState \<Rightarrow> bool" where
  "missingRequired st =
     (selectedStudent st = None \<or> startDate st = None \<or> endDate st = None \<or>
      trim (nameInput st) = [] \<or> trim (phoneInput st) = [] \<or> trim (addressInput st) = [] \<or>
      totalFee st = [] \<or> \<not> truthyId (optValue (selectedBranch st)) \<or>
      length (selectedShifts st) = 0)"

text \<open>
  \<^verbatim>\<open>handleRenewSubmit\<close>, given what the two requests will answer. The result lists
  the requests issued, the toasts shown and the form state afterwards. The table of
  expired students that a successful reload replaces is not part of the form.
\<close>

definition handleRenewSubmit :: "Reply \<Rightarrow> Reply \<Rightarrow> RenewalState \<Rightarrow> SubmitResult" where
  "handleRenewSubmit renewReply reloadReply st =
     (if missingRequired st then
        \<lparr>apiCalls = [], toasts = [ToastError requiredMessage], formState = st\<rparr>
      else
        (case (selectedStudent st, startDate st, endDate st) of
           (Some student, Some start, Some end') \<Rightarrow>
             (case renewReply of
                Rejected m \<Rightarrow>
                  \<lparr>apiCalls = [RenewStudent (student_id student) (renewPayload start end' st)],
                   toasts = [ToastError (failureMessage m)],
                   formState = st\<rparr>
              | Resolved \<Rightarrow>
                  \<lparr>apiCalls =
                     [RenewStudent (student_id student) (renewPayload start end' st),
                      GetExpiredMemberships],
                   toasts =
                     ToastSuccess (''Membership renewed for '' @ student_name student) #
                       (case reloadReply of
                          Resolved \<Rightarrow> []
                        | Rejected m \<Rightarrow> [ToastError (failureMessage m)]),
                   formState = st\<lparr>renewDialogOpen := False\<rparr>\<rparr>)
         | _ \<Rightarrow> \<lparr>apiCalls = [], toasts = [ToastError requiredMessage], formState = st\<rparr>))"

section \<open>Concrete states\<close>

text \<open>The state cells as \<^verbatim>\<open>useState\<close> initialises them, for a given current date.\<close>

definition initialState :: "Date \<Rightarrow> Date \<Rightarrow> RenewalState" where
  "initialState today nextMonth =
     \<lparr>selectedStudent = None, renewDialogOpen = False,
      nameInput = [], registrationNumberInput = [], fatherNameInput = [],
      aadharNumberInput = [], addressInput = [], emailInput = [], phoneInput = [],
      startDate = Some today, endDate = Some nextMonth,
      allShifts = [], shiftOptions = [], seatOptions = [], lockerOptions = [],
      selectedShifts = [], selectedSeat = None, selectedBranch = None, selectedLocker = None,
      totalFee = [], cash = [], online = [], securityMoney = [], remark = [],
      discount = [], lockerFee = [],
      loadingSeats = False, loadingShifts = False, loadingLockers = False\<rparr>"

text \<open>
  A student with one current assignment (shift 2 on seat 10), a catalog of three shifts
  and an open renewal dialog filled in for that student, as \<^verbatim>\<open>handleRenewClick\<close> and
  the effects leave it.
\<close>

definition student7 :: Student where
  "student7 =
     \<lparr>student_id = 7, student_name = ''Asha'',
      assignments =
        Some [\<lparr>seatId = 10, shiftId = 2, a_seatNumber = ''S0'', shiftTitle = ''Evening''\<rparr>]\<rparr>"

definition morning :: ShiftOption where
  "morning = \<lparr>value' = 1, label = ''Morning - [Fee: 300]'', fee = 300, isDisabled = None\<rparr>"

definition evening :: ShiftOption where
  "evening = \<lparr>value' = 2, label = ''Evening - [Fee: 400]'', fee = 400, isDisabled = None\<rparr>"

definition night :: ShiftOption where
  "night = \<lparr>value' = 3, label = ''Night - [Fee: 500]'', fee = 500, isDisabled = None\<rparr>"

definition chosenEvening :: ShiftOption where
  "chosenEvening = \<lparr>value' = 2, label = ''Evening'', fee = 400, isDisabled = None\<rparr>"

definition dialogState :: RenewalState where
  "dialogState =
     (initialState 0 30)
       \<lparr>selectedStudent := Some student7, renewDialogOpen := True,
        nameInput := ''Asha'', phoneInput := ''9000000001'', addressInput := ''12 Lake Road'',
        allShifts := [morning, evening, night],
        shiftOptions := [morning, evening, night],
        selectedShifts := [chosenEvening],
        selectedSeat := Some \<lparr>opt_value = Some 10, opt_label = ''S0''\<rparr>,
        selectedBranch := Some \<lparr>opt_value = Some 1, opt_label = ''Main''\<rparr>,
        selectedLocker := Some \<lparr>opt_value = Some 4, opt_label = ''L4''\<rparr>,
        totalFee := ''400'', cash := ''0'', online := ''0'', securityMoney := ''0'',
        discount := ''0'', lockerFee := ''0''\<rparr>"


definition seatS1 :: SelectOption where
  "seatS1 = \<lparr>opt_value = Some 11, opt_label = ''S1''\<rparr>"

definition freeOnS1 :: "Schedule list" where
  "freeOnS1 =
     [\<lparr>sched_id = 1, title = ''Morning'', sched_fee = 300\<rparr>,
      \<lparr>sched_id = 3, title = ''Night'', sched_fee = 500\<rparr>]"






text \<open>A chosen shift that the catalog does not list.\<close>

definition uncatalogued :: ShiftOption where
  "uncatalogued = \<lparr>value' = 5, label = ''Weekend'', fee = 300, isDisabled = None\<rparr>"

text \<open>
  A seat answer that frees the morning shift only, a dialog in which three shifts were
  picked on seat S1, and a form whose payments exceed the fee.
\<close>

definition freeMorningOnly :: "Schedule list" where
  "freeMorningOnly = [\<lparr>sched_id = 1, title = ''Morning'', sched_fee = 300\<rparr>]"

definition pickedOnS1 :: RenewalState where
  "pickedOnS1 =
     dialogState\<lparr>selectedSeat := Some seatS1, selectedShifts := [morning, chosenEvening, night]\<rparr>"


section \<open>Notions used to state the properties\<close>



text \<open>The payload of the renewal request of a submission, when one was issued.\<close>

definition submittedPayload :: "SubmitResult \<Rightarrow> RenewPayload option" where
  "submittedPayload res =
     (case apiCalls res of RenewStudent _ payload # _ \<Rightarrow> Some payload | _ \<Rightarrow> None)"

text \<open>
  Eligibility of a shift id after the seat effect has run with a given answer:
  without a seat every shift is eligible, with a seat the members of
  \<^verbatim>\<open>availableShiftIds\<close> are.
\<close>

definition eligibleFor :: "RenewalState \<Rightarrow> Schedule list \<Rightarrow> int \<Rightarrow> bool" where
  "eligibleFor st availableShifts i =
     (if truthyId (optValue (selectedSeat st)) then i \<in> set (availableShiftIds st availableShifts)
      else True)"

section \<open>Branch change\<close>




section \<open>Seat change\<close>

text \<open>
  C2, as the code has it. Choosing a seat empties the chosen shift set: the handler
  writes \<^verbatim>\<open>[]\<close> before the eligibility of the new seat is known, so every chosen shift
  is dropped, the still eligible ones included, whatever the request answers.
\<close>

theorem setSeat_clears_shifts:
  "selectedShifts (setSeat option resp st) = []"
  by (simp add: setSeat_def feeEffect_def seatEffect_def seatOnChange_def
      fetchAvailableShiftsForSeat_def Let_def split: option.splits list.splits)

theorem setSeat_clears_shifts_witness:
  "selectedShifts (setSeat (Some seatS1) (Some freeOnS1) dialogState) = []"
  using setSeat_clears_shifts [of "Some seatS1" "Some freeOnS1" dialogState] by simp

text \<open>
  C2 as stated fails: student 7 holds shift 2, which is therefore eligible on every
  seat; it is chosen before the change to seat S1 and gone after it.
\<close>

theorem setSeat_keeps_eligible_counterexample:
  "chosenEvening \<in> set (selectedShifts dialogState) \<and>
   value' chosenEvening \<in>
     set (availableShiftIds (setSeat (Some seatS1) (Some freeOnS1) dialogState) freeOnS1) \<and>
   chosenEvening \<notin> set (selectedShifts (setSeat (Some seatS1) (Some freeOnS1) dialogState))"
  by (simp add: setSeat_def feeEffect_def seatEffect_def seatOnChange_def
      fetchAvailableShiftsForSeat_def Let_def dialogState_def initialState_def seatS1_def
      availableShiftIds_def studentCurrentShiftIds_def student7_def chosenEvening_def freeOnS1_def)

section \<open>Eligibility of the student's own shifts\<close>



section \<open>Offerable seats\<close>





section \<open>Fee recomputation\<close>

text \<open>
  C5. The fee effect sets \<^verbatim>\<open>totalFee\<close> to the fee the catalog lists for the chosen
  shift, and the field is read-only, exactly when one shift is chosen; with no shift
  or more than one chosen, \<^verbatim>\<open>totalFee\<close> becomes \<^verbatim>\<open>'0'\<close> and the field is editable.
\<close>

theorem fee_recomputation:
  "(length (selectedShifts st) = 1 \<longrightarrow>
      isFeeReadOnly (feeEffect st) \<and>
      (\<forall>d. find (\<lambda>shift. value' shift = value' (selectedShifts st ! 0)) (allShifts st) = Some d
           \<longrightarrow> totalFee (feeEffect st) = numberToString (fee d))) \<and>
   (length (selectedShifts st) \<noteq> 1 \<longrightarrow>
      \<not> isFeeReadOnly (feeEffect st) \<and> totalFee (feeEffect st) = ''0'')"
proof (cases "selectedShifts st")
  case Nil
  then show ?thesis by (simp add: feeEffect_def isFeeReadOnly_def)
next
  case (Cons only rest)
  show ?thesis
  proof (cases rest)
    case Nil
    with Cons show ?thesis by (simp add: feeEffect_def isFeeReadOnly_def)
  next
    case (Cons b more)
    with \<open>selectedShifts st = only # rest\<close> show ?thesis
      by (simp add: feeEffect_def isFeeReadOnly_def)
  qed
qed

theorem fee_recomputation_witness:
  "totalFee (feeEffect dialogState) = ''400'' \<and> isFeeReadOnly (feeEffect dialogState) \<and>
   totalFee (feeEffect (dialogState\<lparr>selectedShifts := []\<rparr>)) = ''0'' \<and>
   \<not> isFeeReadOnly (feeEffect (dialogState\<lparr>selectedShifts := []\<rparr>)) \<and>
   totalFee (feeEffect (dialogState\<lparr>selectedShifts := [morning, night]\<rparr>)) = ''0'' \<and>
   \<not> isFeeReadOnly (feeEffect (dialogState\<lparr>selectedShifts := [morning, night]\<rparr>))"
proof -
  have one: "length (selectedShifts dialogState) = 1" by (simp add: dialogState_def)
  have found: "find (\<lambda>shift. value' shift = value' (selectedShifts dialogState ! 0))
                 (allShifts dialogState) = Some evening"
    by (simp add: dialogState_def chosenEvening_def morning_def evening_def)
  have str: "numberToString (fee evening) = ''400''"
    unfolding evening_def by code_simp
  have zero: "length (selectedShifts (dialogState\<lparr>selectedShifts := []\<rparr>)) \<noteq> 1" by simp
  have two: "length (selectedShifts (dialogState\<lparr>selectedShifts := [morning, night]\<rparr>)) \<noteq> 1"
    by simp
  from fee_recomputation [of dialogState] one found str
    fee_recomputation [of "dialogState\<lparr>selectedShifts := []\<rparr>"] zero
    fee_recomputation [of "dialogState\<lparr>selectedShifts := [morning, night]\<rparr>"] two
  show ?thesis by metis
qed

section \<open>Paid and due\<close>




section \<open>Chosen shifts after a seat change\<close>

text \<open>
  C7. After a seat change, for every chosen seat option and every availability answer,
  every chosen shift is eligible for the new seat. The same holds after the
  eligibility recomputation alone, from any state, so also for shifts picked while the
  request was under way.
\<close>

theorem setSeat_shifts_eligible:
  "(\<forall>s \<in> set (selectedShifts (setSeat option (Some r) st)).
      eligibleFor (setSeat option (Some r) st) r (value' s)) \<and>
   (\<forall>s \<in> set (selectedShifts (fetchAvailableShiftsForSeat (Some r) st)).
      eligibleFor (fetchAvailableShiftsForSeat (Some r) st) r (value' s))"
proof -
  have "selectedShifts (setSeat option (Some r) st) = []"
    by (simp add: setSeat_def feeEffect_def seatEffect_def seatOnChange_def
        fetchAvailableShiftsForSeat_def Let_def split: option.splits list.splits)
  moreover have "\<forall>s \<in> set (selectedShifts (fetchAvailableShiftsForSeat (Some r) st)).
      eligibleFor (fetchAvailableShiftsForSeat (Some r) st) r (value' s)"
    by (auto simp: fetchAvailableShiftsForSeat_def Let_def eligibleFor_def availableShiftIds_def
        studentCurrentShiftIds_def)
  ultimately show ?thesis by simp
qed

theorem setSeat_shifts_eligible_witness:
  "selectedShifts (fetchAvailableShiftsForSeat (Some freeMorningOnly) pickedOnS1) =
     [morning, chosenEvening] \<and>
   eligibleFor (fetchAvailableShiftsForSeat (Some freeMorningOnly) pickedOnS1) freeMorningOnly
     (value' morning) \<and>
   eligibleFor (fetchAvailableShiftsForSeat (Some freeMorningOnly) pickedOnS1) freeMorningOnly
     (value' chosenEvening) \<and>
   \<not> eligibleFor (fetchAvailableShiftsForSeat (Some freeMorningOnly) pickedOnS1) freeMorningOnly
     (value' night) \<and>
   selectedShifts (setSeat (Some seatS1) (Some freeMorningOnly) dialogState) = []"
proof -
  have sel: "selectedShifts (fetchAvailableShiftsForSeat (Some freeMorningOnly) pickedOnS1) =
     [morning, chosenEvening]"
    by (simp add: fetchAvailableShiftsForSeat_def Let_def pickedOnS1_def seatS1_def
        availableShiftIds_def studentCurrentShiftIds_def dialogState_def student7_def
        freeMorningOnly_def morning_def chosenEvening_def night_def)
  have night: "\<not> eligibleFor (fetchAvailableShiftsForSeat (Some freeMorningOnly) pickedOnS1)
     freeMorningOnly (value' night)"
    by (simp add: fetchAvailableShiftsForSeat_def Let_def pickedOnS1_def seatS1_def
        availableShiftIds_def studentCurrentShiftIds_def dialogState_def student7_def
        freeMorningOnly_def night_def eligibleFor_def)
  have cleared: "selectedShifts (setSeat (Some seatS1) (Some freeMorningOnly) dialogState) = []"
    by (simp add: setSeat_def feeEffect_def seatEffect_def seatOnChange_def
        fetchAvailableShiftsForSeat_def Let_def split: option.splits list.splits)
  from setSeat_shifts_eligible [of None freeMorningOnly pickedOnS1] sel night cleared
  show ?thesis by simp
qed

section \<open>Validation before submission\<close>

text \<open>
  C8. When no shift is chosen, or the name, the phone, the address, the total fee or
  the branch is missing, submission shows the validation error, issues no request
  (so \<^verbatim>\<open>renewStudent\<close> is not called) and leaves the form state as it was.
\<close>

theorem submit_rejected_before_request:
  assumes "selectedShifts st = [] \<or> trim (nameInput st) = [] \<or> trim (phoneInput st) = [] \<or>
           trim (addressInput st) = [] \<or> totalFee st = [] \<or> selectedBranch st = None"
  shows "handleRenewSubmit renewReply reloadReply st =
           \<lparr>apiCalls = [], toasts = [ToastError requiredMessage], formState = st\<rparr>"
proof -
  from assms have "missingRequired st"
    by (auto simp: missingRequired_def)
  then show ?thesis by (simp add: handleRenewSubmit_def)
qed

theorem submit_rejected_before_request_witness:
  "selectedShifts (dialogState\<lparr>selectedShifts := []\<rparr>) = [] \<and>
   apiCalls (handleRenewSubmit Resolved Resolved (dialogState\<lparr>selectedShifts := []\<rparr>)) = [] \<and>
   toasts (handleRenewSubmit Resolved Resolved (dialogState\<lparr>selectedShifts := []\<rparr>)) =
     [ToastError requiredMessage] \<and>
   formState (handleRenewSubmit Resolved Resolved (dialogState\<lparr>selectedShifts := []\<rparr>)) =
     dialogState\<lparr>selectedShifts := []\<rparr>"
proof -
  have h: "selectedShifts (dialogState\<lparr>selectedShifts := []\<rparr>) = [] \<or>
      trim (nameInput (dialogState\<lparr>selectedShifts := []\<rparr>)) = [] \<or>
      trim (phoneInput (dialogState\<lparr>selectedShifts := []\<rparr>)) = [] \<or>
      trim (addressInput (dialogState\<lparr>selectedShifts := []\<rparr>)) = [] \<or>
      totalFee (dialogState\<lparr>selectedShifts := []\<rparr>) = [] \<or>
      selectedBranch (dialogState\<lparr>selectedShifts := []\<rparr>) = None"
    by simp
  from submit_rejected_before_request [OF h, of Resolved Resolved] show ?thesis by simp
qed

section \<open>The discount in the payload\<close>

lemma dialogState_complete: "\<not> missingRequired dialogState"
  unfolding missingRequired_def dialogState_def initialState_def by code_simp

lemma submittedPayload_Some:
  assumes "submittedPayload (handleRenewSubmit renewReply reloadReply st) = Some payload"
  shows "\<not> missingRequired st \<and>
         (\<exists>start end'. startDate st = Some start \<and> endDate st = Some end' \<and>
            payload = renewPayload start end' st)"
  using assms
  by (auto simp: submittedPayload_def handleRenewSubmit_def
      split: if_splits option.splits Reply.splits)

lemma missingRequired_discount [simp]:
  "missingRequired (st\<lparr>discount := d\<rparr>) = missingRequired st"
  by (simp add: missingRequired_def)

lemma orUndefined_falsy: "x = Num 0 \<or> x = NaN \<Longrightarrow> orUndefined x = None"
  by (auto simp: orUndefined_def)

lemma orZero_falsy: "x = Num 0 \<or> x = NaN \<Longrightarrow> orZero x = Num 0"
  by (auto simp: orZero_def)

text \<open>
  C9. In the payload of every submitted renewal, a discount input that parses to 0 or
  does not parse is left out (\<^verbatim>\<open>undefined\<close>), and replacing it by any other such input
  gives the same payload; cash, online, security money and locker fee inputs that parse
  to 0 or do not parse are sent as the number 0.
\<close>

theorem zero_discount_omitted:
  assumes "submittedPayload (handleRenewSubmit renewReply reloadReply st) = Some payload"
  shows "(parseFloat (discount st) = Num 0 \<or> parseFloat (discount st) = NaN \<longrightarrow>
            p_discount payload = None \<and>
            (\<forall>d. parseFloat d = Num 0 \<or> parseFloat d = NaN \<longrightarrow>
               submittedPayload (handleRenewSubmit renewReply reloadReply (st\<lparr>discount := d\<rparr>)) =
                 Some payload)) \<and>
         (parseFloat (cash st) = Num 0 \<or> parseFloat (cash st) = NaN \<longrightarrow>
            p_cash payload = Num 0) \<and>
         (parseFloat (online st) = Num 0 \<or> parseFloat (online st) = NaN \<longrightarrow>
            p_online payload = Num 0) \<and>
         (parseFloat (securityMoney st) = Num 0 \<or> parseFloat (securityMoney st) = NaN \<longrightarrow>
            p_securityMoney payload = Num 0) \<and>
         (parseFloat (lockerFee st) = Num 0 \<or> parseFloat (lockerFee st) = NaN \<longrightarrow>
            p_lockerFee payload = Num 0)"
proof -
  from submittedPayload_Some [OF assms] obtain start end' where
    ok: "\<not> missingRequired st" and sd: "startDate st = Some start" and
    ed: "endDate st = Some end'" and p: "payload = renewPayload start end' st"
    by blast
  from ok obtain student where stu: "selectedStudent st = Some student"
    by (auto simp: missingRequired_def)
  have same: "submittedPayload (handleRenewSubmit renewReply reloadReply (st\<lparr>discount := d\<rparr>)) =
      Some (renewPayload start end' (st\<lparr>discount := d\<rparr>))" for d
    using ok sd ed stu
    by (simp add: submittedPayload_def handleRenewSubmit_def split: Reply.splits)
  have eq: "renewPayload start end' (st\<lparr>discount := d\<rparr>) = payload"
    if "parseFloat (discount st) = Num 0 \<or> parseFloat (discount st) = NaN"
      and "parseFloat d = Num 0 \<or> parseFloat d = NaN" for d
    using that by (simp add: p renewPayload_def orUndefined_falsy)
  show ?thesis
    using same eq by (simp add: p renewPayload_def orUndefined_falsy orZero_falsy)
qed

theorem zero_discount_omitted_witness:
  "submittedPayload (handleRenewSubmit Resolved Resolved dialogState) =
     Some (renewPayload 0 30 dialogState) \<and>
   discount dialogState = ''0'' \<and>
   p_discount (renewPayload 0 30 dialogState) = None \<and>
   p_cash (renewPayload 0 30 dialogState) = Num 0 \<and>
   submittedPayload (handleRenewSubmit Resolved Resolved (dialogState\<lparr>discount := ''''\<rparr>)) =
     Some (renewPayload 0 30 dialogState)"
proof -
  have sub: "submittedPayload (handleRenewSubmit Resolved Resolved dialogState) =
     Some (renewPayload 0 30 dialogState)"
    using dialogState_complete
    by (simp add: submittedPayload_def handleRenewSubmit_def)
      (simp add: dialogState_def initialState_def)
  have d0: "discount dialogState = ''0''" by (simp add: dialogState_def)
  have z: "parseFloat ''0'' = Num 0" by code_simp
  have e: "parseFloat '''' = NaN" by code_simp
  have c0: "cash dialogState = ''0''" by (simp add: dialogState_def)
  from zero_discount_omitted [OF sub] d0 c0 z e sub show ?thesis by simp
qed

section \<open>A chosen shift outside the catalog\<close>

lemma numberToString_zero: "numberToString 0 = ''0''"
  by code_simp

text \<open>
  C10. With exactly one shift chosen whose id the catalog does not list, the fee effect
  sets \<^verbatim>\<open>totalFee\<close> to \<^verbatim>\<open>'0'\<close>, whatever fee the chosen option carries.
\<close>

theorem uncatalogued_shift_fee_zero:
  assumes "selectedShifts st = [only]"
    and "value' only \<notin> value' ` set (allShifts st)"
  shows "totalFee (feeEffect st) = ''0''"
proof -
  have "\<forall>x \<in> set (allShifts st). value' x \<noteq> value' only"
  proof
    fix x
    assume "x \<in> set (allShifts st)"
    then have "value' x \<in> value' ` set (allShifts st)" by (rule imageI)
    with assms(2) show "value' x \<noteq> value' only" by auto
  qed
  then have "find (\<lambda>shift. value' shift = value' only) (allShifts st) = None"
    by (simp add: find_None_iff)
  with assms(1) show ?thesis
    by (simp add: feeEffect_def numberToString_zero)
qed

theorem uncatalogued_shift_fee_zero_witness:
  "fee uncatalogued = 300 \<and>
   totalFee (feeEffect (dialogState\<lparr>selectedShifts := [uncatalogued]\<rparr>)) = ''0''"
proof -
  have a: "selectedShifts (dialogState\<lparr>selectedShifts := [uncatalogued]\<rparr>) = [uncatalogued]"
    by simp
  have b: "value' uncatalogued \<notin>
      value' ` set (allShifts (dialogState\<lparr>selectedShifts := [uncatalogued]\<rparr>))"
    by (simp add: dialogState_def uncatalogued_def morning_def evening_def night_def)
  from uncatalogued_shift_fee_zero [OF a b] show ?thesis by (simp add: uncatalogued_def)
qed

end
